theory Spec2Isabelle
  imports Complex_Main
begin

section \<open>Numbers and strings of the runtime\<close>

text \<open>
  The component keeps every amount as a JavaScript \<open>number\<close>. The embedding reads a finite
  number as an exact rational; the values that are not finite are kept apart, since
  \<open>parseFloat\<close> can return them and the validators compare against them. Rounding and
  overflow of binary floating point are outside this embedding: sums and differences are
  exact, and a decimal literal denotes its exact value.
\<close>

datatype number = NaN | PosInfinity | NegInfinity | Num rat

fun isNaN :: "number \<Rightarrow> bool" where
  "isNaN NaN = True"
| "isNaN _ = False"

text \<open>\<open>n <= r\<close> and \<open>n > r\<close> for a number \<open>n\<close> and a finite \<open>r\<close>; every comparison with
  \<open>NaN\<close> is false.\<close>

fun num_le :: "number \<Rightarrow> rat \<Rightarrow> bool" where
  "num_le NaN r = False"
| "num_le PosInfinity r = False"
| "num_le NegInfinity r = True"
| "num_le (Num x) r = (x \<le> r)"

fun num_gt :: "number \<Rightarrow> rat \<Rightarrow> bool" where
  "num_gt NaN r = False"
| "num_gt PosInfinity r = True"
| "num_gt NegInfinity r = False"
| "num_gt (Num x) r = (x > r)"

text \<open>The finite value of a number that has passed validation (0 for the others, which
  validation never lets through: see \<open>validateAmount_None_iff\<close> below).\<close>

fun value_of :: "number \<Rightarrow> rat" where
  "value_of (Num x) = x"
| "value_of _ = 0"

text \<open>
  \<open>parseFloat\<close>: leading white space is skipped, then the longest prefix that is a decimal
  literal is read (sign, digits, fraction, exponent, or \<open>Infinity\<close>); with no such prefix
  the result is \<open>NaN\<close>. Strings are byte strings here, so only ASCII white space is known.
\<close>

definition isDigit :: "char \<Rightarrow> bool" where
  "isDigit c \<longleftrightarrow> 48 \<le> (of_char c :: int) \<and> (of_char c :: int) \<le> 57"

definition isWhiteSpace :: "char \<Rightarrow> bool" where
  "isWhiteSpace c \<longleftrightarrow> (of_char c :: int) \<in> {9, 10, 11, 12, 13, 32}"

definition digitVal :: "char \<Rightarrow> int" where
  "digitVal c = of_char c - 48"

definition digitsVal :: "string \<Rightarrow> int" where
  "digitsVal ds = foldl (\<lambda>n c. 10 * n + digitVal c) 0 ds"

fun parseSign :: "string \<Rightarrow> bool \<times> string" where
  "parseSign [] = (False, [])"
| "parseSign (c # cs) =
     (if c = CHR ''-'' then (True, cs)
      else if c = CHR ''+'' then (False, cs)
      else (False, c # cs))"

definition parseExponent :: "string \<Rightarrow> int" where
  "parseExponent r =
     (case r of
        [] \<Rightarrow> 0
      | c # cs \<Rightarrow>
          if c = CHR ''e'' \<or> c = CHR ''E''
          then (let (neg, ds) = parseSign cs; es = takeWhile isDigit ds
                in if es = [] then 0
                   else if neg then - digitsVal es else digitsVal es)
          else 0)"

definition pow10 :: "int \<Rightarrow> rat" where
  "pow10 e = (if 0 \<le> e then 10 ^ nat e else 1 / 10 ^ nat (- e))"

definition parseFloat :: "string \<Rightarrow> number" where
  "parseFloat s =
     (let (neg, r) = parseSign (dropWhile isWhiteSpace s)
      in if take 8 r = ''Infinity'' then (if neg then NegInfinity else PosInfinity)
         else
           let ip = takeWhile isDigit r;
               r1 = dropWhile isDigit r;
               hasDot = (r1 \<noteq> [] \<and> hd r1 = CHR ''.'');
               fp = (if hasDot then takeWhile isDigit (tl r1) else []);
               r2 = (if hasDot then dropWhile isDigit (tl r1) else r1)
           in if ip = [] \<and> fp = [] then NaN
              else
                let m = of_int (digitsVal ip) + of_int (digitsVal fp) / 10 ^ length fp;
                    v = m * pow10 (parseExponent r2)
                in Num (if neg then - v else v))"

text \<open>
  \<open>Number.prototype.toString\<close> on the embedding's exact numbers: the sign, the decimal
  digits of the integer part and, for a fraction, a point and the decimal expansion (at most
  20 places). On integers below \<open>10^21\<close> this is what JavaScript prints.
\<close>

definition digitChar :: "int \<Rightarrow> char" where
  "digitChar d = char_of (48 + d)"

function intDigits :: "int \<Rightarrow> string" where
  "intDigits n = (if n < 10 then [digitChar n] else intDigits (n div 10) @ [digitChar (n mod 10)])"
  by pat_completeness auto
termination
  by (relation "measure nat") auto

declare intDigits.simps [simp del]

fun fracDigits :: "nat \<Rightarrow> rat \<Rightarrow> string" where
  "fracDigits 0 f = []"
| "fracDigits (Suc k) f =
     (if f = 0 then []
      else let d = \<lfloor>10 * f\<rfloor> in digitChar d # fracDigits k (10 * f - of_int d))"

definition toString :: "rat \<Rightarrow> string" where
  "toString x =
     (let a = \<bar>x\<bar>; i = \<lfloor>a\<rfloor>; f = a - of_int i
      in (if x < 0 then ''-'' else '''') @ intDigits i
         @ (if f = 0 then '''' else ''.'' @ fracDigits 20 f))"

text \<open>The rupee sign U+20B9 of the template literals, as its three UTF-8 bytes.\<close>

definition rupee :: string where
  "rupee = [CHR 0xE2, CHR 0x82, CHR 0xB9]"

section \<open>Data of \<open>PaymentModal.tsx\<close>\<close>

datatype payment_method = Cash | Card | Upi | Wallet

text \<open>\<open>interface Payment\<close>. The fields \<open>id\<close> and \<open>method\<close> are called \<open>ident\<close> and
  \<open>pay_method\<close>; the optional fields are
  options. \<open>details\<close> is always set by \<open>addPayment\<close>, possibly to the empty string.\<close>

record Payment =
  ident :: string
  pay_method :: payment_method
  amount :: rat
  details :: string
  cardType :: "string option"
  lastFour :: "string option"
  upiId :: "string option"
  walletType :: "string option"

text \<open>\<open>interface WalletBalance\<close>; \<open>total\<close> is called \<open>total_wb\<close>.\<close>

record WalletBalance =
  total_wb :: rat
  rewardPoints :: rat
  refundBalance :: rat

text \<open>The \<open>useState\<close> cells of the component. The form fields that share a name with a
  field of \<open>Payment\<close> carry the prefix \<open>f_\<close>.\<close>

record State =
  payments :: "Payment list"
  activeMethod :: payment_method
  f_amount :: string
  f_cardType :: string
  f_lastFour :: string
  f_upiId :: string
  f_walletType :: string
  editingPayment :: "string option"
  showWalletBreakdown :: bool
  redeemAmount :: string
  selectedDeliveryOptions :: "string list"

definition init :: State where
  "init = \<lparr> payments = [], activeMethod = Cash, f_amount = '''', f_cardType = '''',
            f_lastFour = '''', f_upiId = '''', f_walletType = '''', editingPayment = None,
            showWalletBreakdown = False, redeemAmount = '''', selectedDeliveryOptions = [] \<rparr>"

text \<open>What a handler does besides updating the state: the toast it shows (named by its
  title, with the number its description prints), the call of the \<open>onPaymentComplete\<close>
  prop, and the delivery actions.\<close>

datatype toast =
    Invalid_Amount
  | Insufficient_Wallet_Balance rat
  | Amount_Exceeds_Balance rat
  | Card_Type_Required
  | Payment_Added rat
  | Payment_Removed
  | Payment_Incomplete rat
  | Payment_Successful rat
  | Invoice_Printed
  | WhatsApp_Opened
  | SMS_App_Opened

datatype effect =
    Toast toast
  | OnPaymentComplete "Payment list"
  | PrintWindow
  | OpenWhatsApp
  | OpenSMS

section \<open>Derived values\<close>

text \<open>\<open>payments.reduce((sum, payment) => sum + payment.amount, 0)\<close> and
  \<open>Math.max(0, totalAmount - totalPaid)\<close>.\<close>

definition totalPaid :: "Payment list \<Rightarrow> rat" where
  "totalPaid ps = foldl (\<lambda>sum payment. sum + amount payment) 0 ps"

definition remainingBalance :: "rat \<Rightarrow> Payment list \<Rightarrow> rat" where
  "remainingBalance totalAmount ps = max 0 (totalAmount - totalPaid ps)"

section \<open>Validation\<close>

text \<open>Both validators return a boolean and show a toast when it is \<open>false\<close>: \<open>None\<close> is
  \<open>true\<close>, \<open>Some t\<close> is \<open>false\<close> after the toast \<open>t\<close>.\<close>

definition validateWalletAmount :: "rat \<Rightarrow> WalletBalance \<Rightarrow> Payment list \<Rightarrow> string \<Rightarrow> toast option" where
  "validateWalletAmount totalAmount walletBalance ps amt =
     (let numAmount = parseFloat amt
      in if isNaN numAmount \<or> num_le numAmount 0 then Some Invalid_Amount
         else if num_gt numAmount (total_wb walletBalance)
           then Some (Insufficient_Wallet_Balance (total_wb walletBalance))
         else if num_gt numAmount (remainingBalance totalAmount ps)
           then Some (Amount_Exceeds_Balance (remainingBalance totalAmount ps))
         else None)"

definition validateAmount :: "rat \<Rightarrow> Payment list \<Rightarrow> string \<Rightarrow> toast option" where
  "validateAmount totalAmount ps amt =
     (let numAmount = parseFloat amt
      in if isNaN numAmount \<or> num_le numAmount 0 then Some Invalid_Amount
         else if num_gt numAmount (remainingBalance totalAmount ps)
           then Some (Amount_Exceeds_Balance (remainingBalance totalAmount ps))
         else None)"

section \<open>Handlers\<close>

definition resetForm :: "State \<Rightarrow> State" where
  "resetForm s = s\<lparr> f_amount := '''', f_cardType := '''', f_lastFour := '''', f_upiId := '''',
                    f_walletType := '''', redeemAmount := '''' \<rparr>"

text \<open>The wallet case of the switch in \<open>addPayment\<close>: points first, the rest from the
  refund balance.\<close>

definition pointsUsed :: "rat \<Rightarrow> WalletBalance \<Rightarrow> rat" where
  "pointsUsed numAmount walletBalance = min numAmount (rewardPoints walletBalance)"

definition refundUsed :: "rat \<Rightarrow> WalletBalance \<Rightarrow> rat" where
  "refundUsed numAmount walletBalance = numAmount - pointsUsed numAmount walletBalance"

definition walletDetails :: "rat \<Rightarrow> WalletBalance \<Rightarrow> string" where
  "walletDetails numAmount walletBalance =
     (let pu = pointsUsed numAmount walletBalance; ru = refundUsed numAmount walletBalance
      in if pu > 0 \<and> ru > 0
           then toString pu @ '' pts + '' @ rupee @ toString ru @ '' refund used''
         else if pu > 0
           then toString pu @ '' pts used''
         else rupee @ toString ru @ '' refund used'')"

text \<open>The constant \<open>paymentAmount\<close> of \<open>addPayment\<close>: the text of the field that belongs to
  the active method.\<close>

definition paymentAmount :: "State \<Rightarrow> string" where
  "paymentAmount s = (if activeMethod s = Wallet then redeemAmount s else f_amount s)"

text \<open>The \<open>details\<close> the switch of \<open>addPayment\<close> builds once the card type is known to be
  there; \<open>upiId || ''\<close> is \<open>upiId\<close>.\<close>

definition paymentDetails :: "WalletBalance \<Rightarrow> State \<Rightarrow> rat \<Rightarrow> string" where
  "paymentDetails walletBalance s numAmount =
     (case activeMethod s of
        Cash \<Rightarrow> ''''
      | Card \<Rightarrow> f_cardType s @ (if f_lastFour s \<noteq> '''' then '' ****'' @ f_lastFour s else '''')
      | Upi \<Rightarrow> f_upiId s
      | Wallet \<Rightarrow> walletDetails numAmount walletBalance)"

text \<open>\<open>addPayment\<close>; \<open>now\<close> is the reading of \<open>Date.now()\<close>. Every path shows exactly one
  toast; the paths that return early leave every cell as it was.\<close>

definition addPayment :: "rat \<Rightarrow> WalletBalance \<Rightarrow> int \<Rightarrow> State \<Rightarrow> effect list \<times> State" where
  "addPayment totalAmount walletBalance now s =
     (let isWalletPayment = (activeMethod s = Wallet);
          rejected = (if isWalletPayment
                      then validateWalletAmount totalAmount walletBalance (payments s) (paymentAmount s)
                      else validateAmount totalAmount (payments s) (paymentAmount s))
      in case rejected of
           Some t \<Rightarrow> ([Toast t], s)
         | None \<Rightarrow>
             let numAmount = value_of (parseFloat (paymentAmount s))
             in if activeMethod s = Card \<and> f_cardType s = ''''
                then ([Toast Card_Type_Required], s)
                else
                  let newPayment =
                        \<lparr> ident = toString (of_int now),
                          pay_method = activeMethod s,
                          amount = numAmount,
                          details = paymentDetails walletBalance s numAmount,
                          cardType = (if activeMethod s = Card then Some (f_cardType s) else None),
                          lastFour = (if activeMethod s = Card then Some (f_lastFour s) else None),
                          upiId = (if activeMethod s = Upi then Some (f_upiId s) else None),
                          walletType = None \<rparr>
                  in ([Toast (Payment_Added numAmount)],
                      resetForm (s\<lparr> payments := payments s @ [newPayment] \<rparr>)))"

definition deletePayment :: "string \<Rightarrow> State \<Rightarrow> effect list \<times> State" where
  "deletePayment i s =
     ([Toast Payment_Removed], s\<lparr> payments := filter (\<lambda>p. ident p \<noteq> i) (payments s) \<rparr>)"

text \<open>The delivery handlers are presentation; only what they trigger is kept.\<close>

definition deliver :: "string \<Rightarrow> effect list" where
  "deliver option =
     (if option = ''print'' then [PrintWindow, Toast Invoice_Printed]
      else if option = ''whatsapp'' then [OpenWhatsApp, Toast WhatsApp_Opened]
      else if option = ''sms'' then [OpenSMS, Toast SMS_App_Opened]
      else [])"

text \<open>\<open>confirmPayment\<close> calls no setter: the state it returns is the state it was given.\<close>

definition confirmPayment :: "rat \<Rightarrow> State \<Rightarrow> effect list \<times> State" where
  "confirmPayment totalAmount s =
     (if remainingBalance totalAmount (payments s) > 0
      then ([Toast (Payment_Incomplete (remainingBalance totalAmount (payments s)))], s)
      else (OnPaymentComplete (payments s)
              # concat (map deliver (selectedDeliveryOptions s))
              @ [Toast (Payment_Successful totalAmount)], s))"

definition fillRemainingAmount :: "rat \<Rightarrow> State \<Rightarrow> State" where
  "fillRemainingAmount totalAmount s =
     s\<lparr> f_amount := toString (remainingBalance totalAmount (payments s)) \<rparr>"

definition useFullWalletBalance :: "rat \<Rightarrow> WalletBalance \<Rightarrow> State \<Rightarrow> State" where
  "useFullWalletBalance totalAmount walletBalance s =
     s\<lparr> redeemAmount :=
          toString (min (total_wb walletBalance) (remainingBalance totalAmount (payments s))) \<rparr>"

definition useOnlyPoints :: "rat \<Rightarrow> WalletBalance \<Rightarrow> State \<Rightarrow> State" where
  "useOnlyPoints totalAmount walletBalance s =
     s\<lparr> redeemAmount :=
          toString (min (rewardPoints walletBalance) (remainingBalance totalAmount (payments s))) \<rparr>"

definition useRefundBalance :: "rat \<Rightarrow> WalletBalance \<Rightarrow> State \<Rightarrow> State" where
  "useRefundBalance totalAmount walletBalance s =
     s\<lparr> redeemAmount :=
          toString (min (refundBalance walletBalance) (remainingBalance totalAmount (payments s))) \<rparr>"

definition toggleDeliveryOption :: "string \<Rightarrow> State \<Rightarrow> State" where
  "toggleDeliveryOption v s =
     s\<lparr> selectedDeliveryOptions :=
          (if v \<in> set (selectedDeliveryOptions s)
           then filter (\<lambda>o'. o' \<noteq> v) (selectedDeliveryOptions s)
           else selectedDeliveryOptions s @ [v]) \<rparr>"

section \<open>The component as a state machine\<close>

text \<open>One event per user action the component handles. The setters of the input fields
  take the text typed; the last-four field drops every character that is not a digit.\<close>

datatype event =
    SetActiveMethod payment_method
  | SetAmount string
  | SetCardType string
  | SetLastFour string
  | SetUpiId string
  | SetRedeemAmount string
  | ToggleWalletBreakdown
  | ToggleDeliveryOption string
  | FillRemainingAmount
  | UseFullWalletBalance
  | UseOnlyPoints
  | UseRefundBalance
  | AddPayment int
  | DeletePayment string
  | ConfirmPayment

fun step :: "rat \<Rightarrow> WalletBalance \<Rightarrow> State \<Rightarrow> event \<Rightarrow> State" where
  "step totalAmount walletBalance s (SetActiveMethod m) = s\<lparr> activeMethod := m \<rparr>"
| "step totalAmount walletBalance s (SetAmount v) = s\<lparr> f_amount := v \<rparr>"
| "step totalAmount walletBalance s (SetCardType v) = s\<lparr> f_cardType := v \<rparr>"
| "step totalAmount walletBalance s (SetLastFour v) = s\<lparr> f_lastFour := filter isDigit v \<rparr>"
| "step totalAmount walletBalance s (SetUpiId v) = s\<lparr> f_upiId := v \<rparr>"
| "step totalAmount walletBalance s (SetRedeemAmount v) = s\<lparr> redeemAmount := v \<rparr>"
| "step totalAmount walletBalance s ToggleWalletBreakdown =
     s\<lparr> showWalletBreakdown := \<not> showWalletBreakdown s \<rparr>"
| "step totalAmount walletBalance s (ToggleDeliveryOption v) = toggleDeliveryOption v s"
| "step totalAmount walletBalance s FillRemainingAmount = fillRemainingAmount totalAmount s"
| "step totalAmount walletBalance s UseFullWalletBalance = useFullWalletBalance totalAmount walletBalance s"
| "step totalAmount walletBalance s UseOnlyPoints = useOnlyPoints totalAmount walletBalance s"
| "step totalAmount walletBalance s UseRefundBalance = useRefundBalance totalAmount walletBalance s"
| "step totalAmount walletBalance s (AddPayment now) = snd (addPayment totalAmount walletBalance now s)"
| "step totalAmount walletBalance s (DeletePayment i) = snd (deletePayment i s)"
| "step totalAmount walletBalance s ConfirmPayment = snd (confirmPayment totalAmount s)"

definition run :: "rat \<Rightarrow> WalletBalance \<Rightarrow> event list \<Rightarrow> State" where
  "run totalAmount walletBalance evs = foldl (step totalAmount walletBalance) init evs"

section \<open>Auxiliary notions and concrete sessions\<close>

text \<open>\<open>accepted T wb s x\<close>: the text of the active field parses to \<open>x\<close>, and \<open>x\<close> passes every
  check \<open>addPayment\<close> makes for the active method.\<close>

definition accepted :: "rat \<Rightarrow> WalletBalance \<Rightarrow> State \<Rightarrow> rat \<Rightarrow> bool" where
  "accepted T wb s x \<longleftrightarrow>
     parseFloat (paymentAmount s) = Num x \<and> 0 < x \<and> x \<le> remainingBalance T (payments s)
     \<and> (activeMethod s = Wallet \<longrightarrow> x \<le> total_wb wb)
     \<and> (activeMethod s = Card \<longrightarrow> f_cardType s \<noteq> '''')"

text \<open>The record \<open>newPayment\<close> that \<open>addPayment\<close> appends for the parsed amount \<open>x\<close>.\<close>

definition newPayment :: "WalletBalance \<Rightarrow> int \<Rightarrow> State \<Rightarrow> rat \<Rightarrow> Payment" where
  "newPayment wb now s x =
     \<lparr> ident = toString (of_int now), pay_method = activeMethod s, amount = x,
       details = paymentDetails wb s x,
       cardType = (if activeMethod s = Card then Some (f_cardType s) else None),
       lastFour = (if activeMethod s = Card then Some (f_lastFour s) else None),
       upiId = (if activeMethod s = Upi then Some (f_upiId s) else None),
       walletType = None \<rparr>"

text \<open>The default of the \<open>walletBalance\<close> prop.\<close>

definition defaultWalletBalance :: WalletBalance where
  "defaultWalletBalance = \<lparr> total_wb = 350, rewardPoints = 150, refundBalance = 200 \<rparr>"


text \<open>A wallet redemption of 600 against an invoice of 500 and a wallet of 350.\<close>

definition wallet_600 :: State where
  "wallet_600 = run 500 defaultWalletBalance [SetActiveMethod Wallet, SetRedeemAmount ''600'']"

text \<open>The toasts of the early returns of \<open>addPayment\<close>.\<close>

fun validation_error :: "toast \<Rightarrow> bool" where
  "validation_error Invalid_Amount = True"
| "validation_error (Insufficient_Wallet_Balance r) = True"
| "validation_error (Amount_Exceeds_Balance r) = True"
| "validation_error Card_Type_Required = True"
| "validation_error _ = False"

text \<open>A card payment of 200 with no card type chosen.\<close>

definition card_no_type :: State where
  "card_no_type = run 500 defaultWalletBalance [SetActiveMethod Card, SetAmount ''200'']"

text \<open>A wallet redemption of 300 against an invoice of 500, and a second wallet balance that
  differs from the default one in \<open>refundBalance\<close> only.\<close>

definition wallet_300 :: State where
  "wallet_300 = run 500 defaultWalletBalance [SetActiveMethod Wallet, SetRedeemAmount ''300'']"

definition otherWalletBalance :: WalletBalance where
  "otherWalletBalance = \<lparr> total_wb = 350, rewardPoints = 150, refundBalance = 0 \<rparr>"

text \<open>An invoice of 300 settled by one cash payment of 300.\<close>

definition settled_300 :: State where
  "settled_300 = run 300 defaultWalletBalance [SetAmount ''300'', AddPayment 1]"

text \<open>Two cash payments added while \<open>Date.now()\<close> reads the same millisecond.\<close>

definition same_millisecond :: State where
  "same_millisecond = run 500 defaultWalletBalance
     [SetAmount ''100'', AddPayment 1700000000000, SetAmount ''200'', AddPayment 1700000000000]"

text \<open>The invoice of the index page after 1000 in cash, with a Visa card ending in 1234 and
  the remaining 1395 typed in.\<close>

definition card_visa :: State where
  "card_visa = run 2395 defaultWalletBalance
     [SetAmount ''1000'', AddPayment 1, SetActiveMethod Card, SetCardType ''visa'',
      SetLastFour ''1234'', SetAmount ''1395'']"




definition removed_300 :: State where
  "removed_300 = run 300 defaultWalletBalance
     [SetAmount ''300'', AddPayment 1, DeletePayment ''1'', SetAmount ''300'']"

section \<open>Properties of the derived values and of \<open>addPayment\<close>\<close>




lemma remainingBalance_nonneg: "0 \<le> remainingBalance T ps"
  by (simp add: remainingBalance_def)

lemma validateAmount_None_iff:
  "validateAmount T ps amt = None \<longleftrightarrow>
     (\<exists>x. parseFloat amt = Num x \<and> 0 < x \<and> x \<le> remainingBalance T ps)"
  by (cases "parseFloat amt") (auto simp: validateAmount_def Let_def)

lemma validateWalletAmount_None_iff:
  "validateWalletAmount T wb ps amt = None \<longleftrightarrow>
     (\<exists>x. parseFloat amt = Num x \<and> 0 < x \<and> x \<le> total_wb wb \<and> x \<le> remainingBalance T ps)"
  by (cases "parseFloat amt") (auto simp: validateWalletAmount_def Let_def)

lemma addPayment_accepted:
  assumes "accepted T wb s x"
  shows "addPayment T wb now s =
           ([Toast (Payment_Added x)], resetForm (s\<lparr> payments := payments s @ [newPayment wb now s x] \<rparr>))"
proof (cases "activeMethod s = Wallet")
  case True
  with assms have "validateWalletAmount T wb (payments s) (paymentAmount s) = None"
    by (auto simp: validateWalletAmount_None_iff accepted_def)
  with True assms show ?thesis
    by (simp add: addPayment_def accepted_def newPayment_def Let_def)
next
  case False
  with assms have "validateAmount T (payments s) (paymentAmount s) = None"
    by (auto simp: validateAmount_None_iff accepted_def)
  with False assms show ?thesis
    by (auto simp: addPayment_def accepted_def newPayment_def Let_def)
qed

lemma addPayment_not_accepted:
  assumes "\<not> (\<exists>x. accepted T wb s x)"
  shows "snd (addPayment T wb now s) = s"
    and "\<exists>t. fst (addPayment T wb now s) = [Toast t] \<and> (\<forall>x. t \<noteq> Payment_Added x)"
proof -
  have "snd (addPayment T wb now s) = s \<and>
        (\<exists>t. fst (addPayment T wb now s) = [Toast t] \<and> (\<forall>x. t \<noteq> Payment_Added x))"
  proof (cases "activeMethod s = Wallet")
    case True
    show ?thesis
    proof (cases "validateWalletAmount T wb (payments s) (paymentAmount s)")
      case None
      with True assms show ?thesis
        by (auto simp: validateWalletAmount_None_iff accepted_def)
    next
      case (Some t)
      then have "\<forall>x. t \<noteq> Payment_Added x"
        by (auto simp: validateWalletAmount_def Let_def split: if_splits)
      with Some True show ?thesis
        by (simp add: addPayment_def Let_def)
    qed
  next
    case False
    show ?thesis
    proof (cases "validateAmount T (payments s) (paymentAmount s)")
      case None
      with False assms have "activeMethod s = Card \<and> f_cardType s = ''''"
        by (auto simp: validateAmount_None_iff accepted_def)
      with None False show ?thesis
        by (simp add: addPayment_def Let_def)
    next
      case (Some t)
      then have "\<forall>x. t \<noteq> Payment_Added x"
        by (auto simp: validateAmount_def Let_def split: if_splits)
      with Some False show ?thesis
        by (simp add: addPayment_def Let_def)
    qed
  qed
  then show "snd (addPayment T wb now s) = s"
    and "\<exists>t. fst (addPayment T wb now s) = [Toast t] \<and> (\<forall>x. t \<noteq> Payment_Added x)"
    by blast+
qed

lemma addPayment_added_iff:
  "fst (addPayment T wb now s) = [Toast (Payment_Added x)] \<longleftrightarrow> accepted T wb s x"
proof
  assume a: "fst (addPayment T wb now s) = [Toast (Payment_Added x)]"
  show "accepted T wb s x"
  proof (cases "\<exists>y. accepted T wb s y")
    case True
    then obtain y where y: "accepted T wb s y" ..
    from addPayment_accepted [OF y, of now] a have "y = x" by simp
    with y show ?thesis by simp
  next
    case False
    from addPayment_not_accepted(2) [OF False, of now] a show ?thesis by auto
  qed
next
  assume "accepted T wb s x"
  then show "fst (addPayment T wb now s) = [Toast (Payment_Added x)]"
    by (simp add: addPayment_accepted)
qed

lemma run_snoc: "run T wb (evs @ [ev]) = step T wb (run T wb evs) ev"
  by (simp add: run_def)

lemma addPayment_toast_cases:
  "\<exists>t. fst (addPayment T wb now s) = [Toast t] \<and> (validation_error t \<or> (\<exists>x. t = Payment_Added x))"
proof (cases "\<exists>x. accepted T wb s x")
  case True
  then show ?thesis by (auto simp: addPayment_accepted)
next
  case False
  show ?thesis
  proof (cases "activeMethod s = Wallet")
    case True
    then show ?thesis
      by (cases "parseFloat (redeemAmount s)")
         (auto simp: addPayment_def paymentAmount_def validateWalletAmount_def Let_def)
  next
    case False
    then show ?thesis
      by (cases "parseFloat (f_amount s)")
         (auto simp: addPayment_def paymentAmount_def validateAmount_def Let_def)
  qed
qed

lemma deliver_no_callback: "OnPaymentComplete ps \<notin> set (concat (map deliver opts))"
  by (induction opts) (auto simp: deliver_def)










section \<open>The scenarios of the specification\<close>

text \<open>Scenario A: the invoice of the index page, 1000 in cash, then 1395 by card.\<close>

lemma scenario_A:
  "remainingBalance 2395 (payments card_visa) = 1395
   \<and> remainingBalance 2395 (payments (snd (addPayment 2395 defaultWalletBalance 2 card_visa))) = 0
   \<and> hd (fst (confirmPayment 2395 (snd (addPayment 2395 defaultWalletBalance 2 card_visa))))
        = OnPaymentComplete (payments (snd (addPayment 2395 defaultWalletBalance 2 card_visa)))
   \<and> length (payments (snd (addPayment 2395 defaultWalletBalance 2 card_visa))) = 2"
  by code_simp

text \<open>Scenario B: a wallet redemption of 300 takes 150 points and 150 of the refund balance.\<close>

lemma scenario_B:
  "pointsUsed 300 defaultWalletBalance = 150
   \<and> refundUsed 300 defaultWalletBalance = 150
   \<and> remainingBalance 500 (payments (snd (addPayment 500 defaultWalletBalance 1 wallet_300))) = 200"
  by code_simp

text \<open>Scenario C: a wallet redemption of 400 against a wallet of 350 is refused.\<close>

lemma scenario_C:
  "addPayment 500 defaultWalletBalance 1
       (run 500 defaultWalletBalance [SetActiveMethod Wallet, SetRedeemAmount ''400''])
     = ([Toast (Insufficient_Wallet_Balance 350)],
        run 500 defaultWalletBalance [SetActiveMethod Wallet, SetRedeemAmount ''400''])
   \<and> remainingBalance 500
         (payments (run 500 defaultWalletBalance [SetActiveMethod Wallet, SetRedeemAmount ''400'']))
       = 500"
  by code_simp

text \<open>Scenario D: after the only payment is removed, the invoice is open again.\<close>

lemma scenario_D:
  "remainingBalance 300 (payments settled_300) = 0
   \<and> remainingBalance 300 (payments removed_300) = 300
   \<and> fst (confirmPayment 300 removed_300) = [Toast (Payment_Incomplete 300)]"
  by code_simp

section \<open>The claims\<close>




text \<open>
  C3. The checks run in a fixed order and the first that fails decides the toast: an amount
  that does not parse to a positive number is "Invalid Amount" whatever else holds; then,
  for the wallet, an amount above \<open>walletBalance.total\<close> is "Insufficient Wallet Balance";
  then an amount above the remaining balance is "Amount Exceeds Balance". So a wallet amount
  above both the wallet total and the remaining balance is reported as insufficient wallet
  balance.
\<close>

theorem validation_order:
  assumes "parseFloat (paymentAmount s) = n"
  shows "(isNaN n \<or> num_le n 0 \<longrightarrow>
            addPayment T wb now s = ([Toast Invalid_Amount], s))
       \<and> (\<not> (isNaN n \<or> num_le n 0) \<and> activeMethod s = Wallet \<and> num_gt n (total_wb wb) \<longrightarrow>
            addPayment T wb now s = ([Toast (Insufficient_Wallet_Balance (total_wb wb))], s))
       \<and> (\<not> (isNaN n \<or> num_le n 0) \<and> (activeMethod s = Wallet \<longrightarrow> \<not> num_gt n (total_wb wb))
            \<and> num_gt n (remainingBalance T (payments s)) \<longrightarrow>
            addPayment T wb now s
              = ([Toast (Amount_Exceeds_Balance (remainingBalance T (payments s)))], s))
       \<and> (activeMethod s = Wallet \<and> num_gt n (total_wb wb)
            \<and> num_gt n (remainingBalance T (payments s)) \<longrightarrow>
            fst (addPayment T wb now s) = [Toast (Insufficient_Wallet_Balance (total_wb wb))])"
proof -
  have nonneg: "0 \<le> remainingBalance T (payments s)"
    by (rule remainingBalance_nonneg)
  have pos: "\<not> (isNaN n \<or> num_le n 0)" if "num_gt n (remainingBalance T (payments s))"
    using that nonneg by (cases n) auto
  show ?thesis
  proof (cases "activeMethod s = Wallet")
    case True
    with assms pos show ?thesis
      by (auto simp: addPayment_def validateWalletAmount_def Let_def)
  next
    case False
    with assms pos show ?thesis
      by (auto simp: addPayment_def validateAmount_def Let_def)
  qed
qed

theorem validation_order_witness:
  "parseFloat (paymentAmount wallet_600) = Num 600
   \<and> activeMethod wallet_600 = Wallet
   \<and> num_gt (Num 600) (total_wb defaultWalletBalance)
   \<and> num_gt (Num 600) (remainingBalance 500 (payments wallet_600))
   \<and> fst (addPayment 500 defaultWalletBalance 1 wallet_600)
        = [Toast (Insufficient_Wallet_Balance 350)]"
proof -
  have p: "parseFloat (paymentAmount wallet_600) = Num 600" by code_simp
  have a: "activeMethod wallet_600 = Wallet" by code_simp
  have g1: "num_gt (Num 600) (total_wb defaultWalletBalance)" by code_simp
  have g2: "num_gt (Num 600) (remainingBalance 500 (payments wallet_600))" by code_simp
  have t: "total_wb defaultWalletBalance = 350" by code_simp
  from validation_order [OF p, of 500 defaultWalletBalance 1] a g1 g2
  have "fst (addPayment 500 defaultWalletBalance 1 wallet_600)
          = [Toast (Insufficient_Wallet_Balance (total_wb defaultWalletBalance))]"
    by blast
  with a p g1 g2 t show ?thesis by simp
qed

text \<open>
  C4, as stated: after a successful confirm, a further confirm fails and never hands over the
  entries again. The component keeps no record of a confirmation: on the settled invoice
  below, the second call of \<open>confirmPayment\<close> calls \<open>onPaymentComplete\<close> with the same entries
  as the first.
\<close>

theorem confirm_twice_counterexample:
  "remainingBalance 300 (payments settled_300) = 0
   \<and> hd (fst (confirmPayment 300 settled_300)) = OnPaymentComplete (payments settled_300)
   \<and> hd (fst (confirmPayment 300 (snd (confirmPayment 300 settled_300))))
        = OnPaymentComplete (payments settled_300)
   \<and> payments settled_300 \<noteq> []"
  by code_simp

text \<open>
  C4, amended. \<open>confirmPayment\<close> hands the entries to \<open>onPaymentComplete\<close> if and only if the
  remaining balance is 0, and shows "Payment Incomplete" with the remaining balance when
  that is positive. It never changes the state, and calling it again gives the same result
  again: on a settled invoice every call succeeds.
\<close>

theorem confirm_iff_settled:
  "((\<exists>ps. OnPaymentComplete ps \<in> set (fst (confirmPayment T s)))
      \<longleftrightarrow> remainingBalance T (payments s) = 0)
   \<and> (remainingBalance T (payments s) = 0 \<longrightarrow>
        fst (confirmPayment T s)
          = OnPaymentComplete (payments s) # concat (map deliver (selectedDeliveryOptions s))
              @ [Toast (Payment_Successful T)])
   \<and> (remainingBalance T (payments s) > 0 \<longrightarrow>
        fst (confirmPayment T s) = [Toast (Payment_Incomplete (remainingBalance T (payments s)))])
   \<and> snd (confirmPayment T s) = s
   \<and> confirmPayment T (snd (confirmPayment T s)) = confirmPayment T s"
proof -
  have n: "0 \<le> remainingBalance T (payments s)" by (rule remainingBalance_nonneg)
  show ?thesis
  proof (cases "remainingBalance T (payments s) > 0")
    case True
    then show ?thesis by (simp add: confirmPayment_def)
  next
    case False
    with n have z: "remainingBalance T (payments s) = 0" by simp
    then show ?thesis by (auto simp: confirmPayment_def)
  qed
qed

theorem confirm_iff_settled_witness:
  "remainingBalance 300 (payments settled_300) = 0
   \<and> fst (confirmPayment 300 settled_300)
        = [OnPaymentComplete (payments settled_300), Toast (Payment_Successful 300)]
   \<and> remainingBalance 300 (payments init) > 0
   \<and> fst (confirmPayment 300 init) = [Toast (Payment_Incomplete 300)]"
proof -
  have z: "remainingBalance 300 (payments settled_300) = 0" by code_simp
  have o: "selectedDeliveryOptions settled_300 = []" by code_simp
  have p: "remainingBalance 300 (payments init) = 300" by code_simp
  from confirm_iff_settled [of 300 settled_300] confirm_iff_settled [of 300 init] z o p
  show ?thesis by simp
qed

text \<open>
  C5. The wallet decomposition is \<open>pointsUsed = min(amount, rewardPoints)\<close> and
  \<open>refundUsed = amount - pointsUsed\<close>: an amount within the reward points is taken from the
  points alone, a larger one (up to points plus refund balance) takes all the points and the
  rest from the refund balance.
\<close>

theorem wallet_decomposition:
  "pointsUsed a wb = min a (rewardPoints wb)
   \<and> refundUsed a wb = a - pointsUsed a wb
   \<and> (a \<le> rewardPoints wb \<longrightarrow> pointsUsed a wb = a \<and> refundUsed a wb = 0)
   \<and> (rewardPoints wb < a \<and> a \<le> rewardPoints wb + refundBalance wb \<longrightarrow>
        pointsUsed a wb = rewardPoints wb \<and> refundUsed a wb = a - rewardPoints wb)"
  by (simp add: pointsUsed_def refundUsed_def min_def)

theorem wallet_decomposition_witness:
  "(100::rat) \<le> rewardPoints defaultWalletBalance
   \<and> pointsUsed 100 defaultWalletBalance = 100 \<and> refundUsed 100 defaultWalletBalance = 0
   \<and> rewardPoints defaultWalletBalance < 300
   \<and> 300 \<le> rewardPoints defaultWalletBalance + refundBalance defaultWalletBalance
   \<and> pointsUsed 300 defaultWalletBalance = 150 \<and> refundUsed 300 defaultWalletBalance = 150"
  using wallet_decomposition [of 100 defaultWalletBalance]
        wallet_decomposition [of 300 defaultWalletBalance]
  by (simp add: defaultWalletBalance_def)

text \<open>
  C6. The details of an admitted entry follow from the active method and the form: for a
  card, the card type followed by a space, four asterisks and the last four digits when these
  are there, and the card type alone otherwise; for UPI, the reference as typed (possibly
  empty); for the wallet, "P pts + (rupee sign)R refund used" when both portions are
  positive, "P pts used" when the refund portion is zero, "(rupee sign)R refund used" when
  the points portion is zero; for cash, the empty string.
\<close>

theorem details_of_admitted_entry:
  assumes "fst (addPayment T wb now s) = [Toast (Payment_Added x)]"
  shows "\<exists>p. payments (snd (addPayment T wb now s)) = payments s @ [p]
       \<and> amount p = x \<and> pay_method p = activeMethod s
       \<and> (activeMethod s = Cash \<longrightarrow> details p = '''')
       \<and> (activeMethod s = Card \<longrightarrow>
            details p = (if f_lastFour s \<noteq> '''' then f_cardType s @ '' ****'' @ f_lastFour s
                         else f_cardType s))
       \<and> (activeMethod s = Upi \<longrightarrow> details p = f_upiId s)
       \<and> (activeMethod s = Wallet \<longrightarrow>
            (0 < pointsUsed x wb \<and> 0 < refundUsed x wb \<longrightarrow>
               details p = toString (pointsUsed x wb) @ '' pts + '' @ rupee
                             @ toString (refundUsed x wb) @ '' refund used'')
          \<and> (refundUsed x wb = 0 \<longrightarrow> details p = toString (pointsUsed x wb) @ '' pts used'')
          \<and> (pointsUsed x wb = 0 \<longrightarrow>
               details p = rupee @ toString (refundUsed x wb) @ '' refund used''))"
proof -
  from assms have acc: "accepted T wb s x"
    by (simp add: addPayment_added_iff)
  then have pos: "0 < x" by (simp add: accepted_def)
  let ?p = "newPayment wb now s x"
  have app: "payments (snd (addPayment T wb now s)) = payments s @ [?p]"
    by (simp add: addPayment_accepted [OF acc] resetForm_def)
  have zero: "pointsUsed x wb = x" if "refundUsed x wb = 0"
    using that by (simp add: refundUsed_def)
  have w: "activeMethod s = Wallet \<longrightarrow>
            (0 < pointsUsed x wb \<and> 0 < refundUsed x wb \<longrightarrow>
               details ?p = toString (pointsUsed x wb) @ '' pts + '' @ rupee
                             @ toString (refundUsed x wb) @ '' refund used'')
          \<and> (refundUsed x wb = 0 \<longrightarrow> details ?p = toString (pointsUsed x wb) @ '' pts used'')
          \<and> (pointsUsed x wb = 0 \<longrightarrow>
               details ?p = rupee @ toString (refundUsed x wb) @ '' refund used'')"
    using pos zero by (auto simp: newPayment_def paymentDetails_def walletDetails_def Let_def)
  have c: "(activeMethod s = Cash \<longrightarrow> details ?p = '''')
       \<and> (activeMethod s = Card \<longrightarrow>
            details ?p = (if f_lastFour s \<noteq> '''' then f_cardType s @ '' ****'' @ f_lastFour s
                         else f_cardType s))
       \<and> (activeMethod s = Upi \<longrightarrow> details ?p = f_upiId s)"
    by (simp add: newPayment_def paymentDetails_def)
  have m: "amount ?p = x \<and> pay_method ?p = activeMethod s"
    by (simp add: newPayment_def)
  from app m c w show ?thesis by blast
qed

theorem details_of_admitted_entry_witness:
  "fst (addPayment 2395 defaultWalletBalance 2 card_visa) = [Toast (Payment_Added 1395)]
   \<and> activeMethod card_visa = Card
   \<and> map details (payments (snd (addPayment 2395 defaultWalletBalance 2 card_visa)))
        = ['''', ''visa ****1234'']
   \<and> fst (addPayment 500 defaultWalletBalance 1 wallet_300) = [Toast (Payment_Added 300)]
   \<and> activeMethod wallet_300 = Wallet
   \<and> 0 < pointsUsed 300 defaultWalletBalance \<and> 0 < refundUsed 300 defaultWalletBalance
   \<and> map details (payments (snd (addPayment 500 defaultWalletBalance 1 wallet_300)))
        = [''150 pts + '' @ rupee @ ''150 refund used'']"
proof -
  have h1: "fst (addPayment 2395 defaultWalletBalance 2 card_visa) = [Toast (Payment_Added 1395)]"
    by code_simp
  have a1: "activeMethod card_visa = Card" by code_simp
  have f1: "f_cardType card_visa = ''visa''" "f_lastFour card_visa = ''1234''" by code_simp+
  have d1: "map details (payments card_visa) = ['''']" by code_simp
  have h2: "fst (addPayment 500 defaultWalletBalance 1 wallet_300) = [Toast (Payment_Added 300)]"
    by code_simp
  have a2: "activeMethod wallet_300 = Wallet" by code_simp
  have p2: "payments wallet_300 = []" by code_simp
  have u2: "pointsUsed 300 defaultWalletBalance = 150" "refundUsed 300 defaultWalletBalance = 150"
    by code_simp+
  have s150: "toString 150 = ''150''" by code_simp
  from details_of_admitted_entry [OF h1] a1 f1 d1
  have r1: "map details (payments (snd (addPayment 2395 defaultWalletBalance 2 card_visa)))
        = ['''', ''visa ****1234'']"
    by auto
  from details_of_admitted_entry [OF h2] a2 p2 u2 s150
  have r2: "map details (payments (snd (addPayment 500 defaultWalletBalance 1 wallet_300)))
        = [''150 pts + '' @ rupee @ ''150 refund used'']"
    by auto
  from h1 a1 r1 h2 a2 u2 r2 show ?thesis by simp
qed

text \<open>
  C7. When \<open>addPayment\<close> ends with a validation toast ("Invalid Amount", "Insufficient Wallet
  Balance", "Amount Exceeds Balance" or "Card Type Required"), the state is the one it was
  given: the list of payments, \<open>totalPaid\<close> and the remaining balance are unchanged.
\<close>

theorem failed_validation_keeps_state:
  assumes "fst (addPayment T wb now s) = [Toast t]"
      and "validation_error t"
  shows "snd (addPayment T wb now s) = s
       \<and> payments (snd (addPayment T wb now s)) = payments s
       \<and> totalPaid (payments (snd (addPayment T wb now s))) = totalPaid (payments s)
       \<and> remainingBalance T (payments (snd (addPayment T wb now s)))
           = remainingBalance T (payments s)"
proof -
  have "\<not> (\<exists>x. accepted T wb s x)"
  proof
    assume "\<exists>x. accepted T wb s x"
    then obtain x where "accepted T wb s x" ..
    then have "fst (addPayment T wb now s) = [Toast (Payment_Added x)]"
      by (simp add: addPayment_accepted)
    with assms show False by auto
  qed
  then have "snd (addPayment T wb now s) = s"
    by (rule addPayment_not_accepted(1))
  then show ?thesis by simp
qed

theorem failed_validation_keeps_state_witness:
  "fst (addPayment 500 defaultWalletBalance 1 card_no_type) = [Toast Card_Type_Required]
   \<and> validation_error Card_Type_Required
   \<and> snd (addPayment 500 defaultWalletBalance 1 card_no_type) = card_no_type"
proof -
  have h: "fst (addPayment 500 defaultWalletBalance 1 card_no_type) = [Toast Card_Type_Required]"
    by code_simp
  have v: "validation_error Card_Type_Required" by simp
  from failed_validation_keeps_state [OF h v] h v show ?thesis by simp
qed




text \<open>
  C9, as stated: the ids of the entries in the list are pairwise distinct. The id is the
  reading of the clock in milliseconds, so two entries added at the same reading share it;
  \<open>deletePayment\<close> of that id then removes both.
\<close>

theorem same_clock_reading_same_id:
  "map ident (payments same_millisecond) = [''1700000000000'', ''1700000000000'']
   \<and> map amount (payments same_millisecond) = [100, 200]
   \<and> \<not> distinct (map ident (payments same_millisecond))
   \<and> payments (snd (deletePayment ''1700000000000'' same_millisecond)) = []"
  by code_simp

text \<open>
  C10. The refund balance is never read by the wallet validation or by the decomposition: two
  wallet balances that agree on \<open>total\<close> and \<open>rewardPoints\<close> give the same validation result,
  the same \<open>pointsUsed\<close> and \<open>refundUsed\<close>, the same details and the same outcome of
  \<open>addPayment\<close>.
\<close>

theorem refundBalance_never_read:
  assumes "total_wb wb1 = total_wb wb2"
      and "rewardPoints wb1 = rewardPoints wb2"
  shows "validateWalletAmount T wb1 ps amt = validateWalletAmount T wb2 ps amt
       \<and> pointsUsed x wb1 = pointsUsed x wb2
       \<and> refundUsed x wb1 = refundUsed x wb2
       \<and> walletDetails x wb1 = walletDetails x wb2
       \<and> addPayment T wb1 now s = addPayment T wb2 now s"
proof -
  have v: "validateWalletAmount T wb1 ps' amt' = validateWalletAmount T wb2 ps' amt'" for ps' amt'
    using assms by (simp add: validateWalletAmount_def Let_def)
  have p: "pointsUsed y wb1 = pointsUsed y wb2" for y
    using assms by (simp add: pointsUsed_def)
  have r: "refundUsed y wb1 = refundUsed y wb2" for y
    by (simp add: refundUsed_def p)
  have w: "walletDetails y wb1 = walletDetails y wb2" for y
    by (simp add: walletDetails_def p r)
  have d: "paymentDetails wb1 s y = paymentDetails wb2 s y" for y
    by (cases "activeMethod s") (simp_all add: paymentDetails_def w)
  have "addPayment T wb1 now s = addPayment T wb2 now s"
    by (simp only: addPayment_def v d)
  with v p r w show ?thesis by simp
qed

theorem refundBalance_never_read_witness:
  "total_wb defaultWalletBalance = total_wb otherWalletBalance
   \<and> rewardPoints defaultWalletBalance = rewardPoints otherWalletBalance
   \<and> refundBalance defaultWalletBalance \<noteq> refundBalance otherWalletBalance
   \<and> addPayment 500 defaultWalletBalance 1 wallet_300 = addPayment 500 otherWalletBalance 1 wallet_300
   \<and> fst (addPayment 500 otherWalletBalance 1 wallet_300) = [Toast (Payment_Added 300)]"
proof -
  have a: "total_wb defaultWalletBalance = total_wb otherWalletBalance"
    by (simp add: defaultWalletBalance_def otherWalletBalance_def)
  have b: "rewardPoints defaultWalletBalance = rewardPoints otherWalletBalance"
    by (simp add: defaultWalletBalance_def otherWalletBalance_def)
  have c: "refundBalance defaultWalletBalance \<noteq> refundBalance otherWalletBalance"
    by (simp add: defaultWalletBalance_def otherWalletBalance_def)
  have e: "fst (addPayment 500 otherWalletBalance 1 wallet_300) = [Toast (Payment_Added 300)]"
    by code_simp
  from refundBalance_never_read [OF a b, of 500 "[]" "''''" 0 1 wallet_300] a b c e
  show ?thesis by simp
qed

end
